theory Spec2Isabelle
  imports Complex_Main "HOL-Library.Sublist" "HOL-Library.AList" "HOL-Library.Log_Nat"
begin

section \<open>Data model\<close>

text \<open>
  A connectivity log entry, by the fields the log table names: the columns \<open>device\<close>,
  \<open>app\<close>, \<open>medium\<close> and \<open>message\<close>, and the \<open>type\<close> that selects the row style.
\<close>

record ConnectionRecordEntry =
  type :: string
  device :: string
  app :: string
  medium :: string
  message :: string

text \<open>
  The fields of \<open>FrameworkEvent\<close> that \<open>FrameworkEventsInspector.tsx\<close> reads. The
  \<open>thread\<close> and \<open>duration\<close> fields are optional in the source (\<open>event.thread!\<close>,
  \<open>thread?: string\<close>, \<open>event.duration &&\<close>), so an absent field is \<open>None\<close>.
\<close>

record FrameworkEvent =
  type :: string
  thread :: "string option"
  timestamp :: int
  duration :: "nat option"

text \<open>
  A JavaScript \<open>Set\<close> holds each value once and keeps insertion order: a list without
  repetitions. \<open>new Set()\<close> is the empty list.
\<close>

type_synonym 'a js_set = "'a list"

definition Set_new :: "'a js_set" where
  "Set_new = []"

definition Set_size :: "'a js_set \<Rightarrow> nat" where
  "Set_size s = length s"

definition Set_has :: "'a js_set \<Rightarrow> 'a \<Rightarrow> bool" where
  "Set_has s v = (v \<in> set s)"

definition Set_add :: "'a js_set \<Rightarrow> 'a \<Rightarrow> 'a js_set" where
  "Set_add s v = (if v \<in> set s then s else s @ [v])"

definition Set_delete :: "'a js_set \<Rightarrow> 'a \<Rightarrow> 'a js_set" where
  "Set_delete s v = filter (\<lambda>x. x \<noteq> v) s"

section \<open>Filtering of the events\<close>

text \<open>
  \<open>filteredThreads\<close> is declared a set of strings, but it holds whatever the dropdown
  items add to it, and the item of an absent thread adds \<open>undefined\<close>: its elements are
  optional strings, and \<open>filteredThreads.has(event.thread!)\<close> looks the thread of the
  event up as it is, absent or not.
\<close>

definition filteredEvents ::
  "FrameworkEvent list \<Rightarrow> string js_set \<Rightarrow> string option js_set \<Rightarrow> FrameworkEvent list" where
  "filteredEvents events filteredEventTypes filteredThreads =
     filter (\<lambda>event. Set_size filteredThreads = 0 \<or> Set_has filteredThreads (thread event))
       (filter (\<lambda>event. Set_size filteredEventTypes = 0 \<or> Set_has filteredEventTypes (type event))
          events)"

section \<open>The filter dropdown\<close>

text \<open>
  \<open>produce(cur, recipe)\<close> of immer returns the value the recipe leaves in the draft;
  \<open>cur\<close> itself is not changed.
\<close>

definition produce :: "'a \<Rightarrow> ('a \<Rightarrow> 'a) \<Rightarrow> 'a" where
  "produce cur recipe = recipe cur"

text \<open>
  The updates handed to \<open>setFilteredThreads\<close> and \<open>setFilteredEventTypes\<close> by the
  \<open>onSelect\<close> handlers of the two groups of dropdown items. There is one item per
  element of \<open>allThreads\<close>, so the value of a thread item may be an absent thread.
\<close>

definition onSelect_thread ::
  "string option \<Rightarrow> bool \<Rightarrow> string option js_set \<Rightarrow> string option js_set" where
  "onSelect_thread thr selected cur =
     produce cur (\<lambda>draft. if selected then Set_add draft thr else Set_delete draft thr)"

definition onSelect_eventType :: "string \<Rightarrow> bool \<Rightarrow> string js_set \<Rightarrow> string js_set" where
  "onSelect_eventType eventType selected cur =
     produce cur (\<lambda>draft. if selected then Set_add draft eventType else Set_delete draft eventType)"

section \<open>Threads and event types of the events\<close>

text \<open>
  \<open>uniqBy\<close> of lodash (\<open>baseUniq\<close> with an iteratee): the array is walked once; a value
  whose computed key is already in \<open>seen\<close> is skipped, any other value is pushed to
  the result and its key to \<open>seen\<close>.
\<close>

fun baseUniq :: "('a \<Rightarrow> 'k) \<Rightarrow> 'a list \<Rightarrow> 'k list \<Rightarrow> 'a list \<Rightarrow> 'a list" where
  "baseUniq iteratee [] seen result = result"
| "baseUniq iteratee (v # array) seen result =
     (let computed = iteratee v in
      if computed \<in> set seen then baseUniq iteratee array seen result
      else baseUniq iteratee array (seen @ [computed]) (result @ [v]))"

definition uniqBy :: "'a list \<Rightarrow> ('a \<Rightarrow> 'k) \<Rightarrow> 'a list" where
  "uniqBy array iteratee = baseUniq iteratee array [] []"

definition allThreads :: "FrameworkEvent list \<Rightarrow> string option list" where
  "allThreads events = map (\<lambda>event. thread event) (uniqBy events thread)"

definition allEventTypes :: "FrameworkEvent list \<Rightarrow> string list" where
  "allEventTypes events = map (\<lambda>event. type event) (uniqBy events type)"

text \<open>The position at which a value first occurs in a list (its length when it does not).\<close>

definition first_index :: "'a list \<Rightarrow> 'a \<Rightarrow> nat" where
  "first_index xs v = length (takeWhile (\<lambda>x. x \<noteq> v) xs)"

text \<open>
  The specification that \<open>uniqBy\<close> is compared with: each value of a list once, at the
  place of its first occurrence.
\<close>

primrec first_occurrences :: "'a list \<Rightarrow> 'a list" where
  "first_occurrences [] = []"
| "first_occurrences (x # xs) = x # filter (\<lambda>y. y \<noteq> x) (first_occurrences xs)"

section \<open>Strings and numbers of the host language\<close>

text \<open>\<open>Number.prototype.toString\<close> on a non-negative integer: its decimal digits.\<close>

definition digit_char :: "nat \<Rightarrow> char" where
  "digit_char d = char_of (48 + d)"

fun Number_toString :: "nat \<Rightarrow> string" where
  "Number_toString n =
     (if n < 10 then [digit_char n] else Number_toString (n div 10) @ [digit_char (n mod 10)])"

declare Number_toString.simps [simp del]

definition is_digit :: "char \<Rightarrow> bool" where
  "is_digit c = (48 \<le> (of_char c :: nat) \<and> (of_char c :: nat) \<le> 57)"

text \<open>The number a string of decimal digits denotes.\<close>

definition decimal_value :: "string \<Rightarrow> nat" where
  "decimal_value s = foldl (\<lambda>acc c. 10 * acc + (of_char c - 48)) 0 s"

text \<open>
  \<open>String.prototype.lastIndexOf(searchString)\<close>: the largest position at which
  \<open>searchString\<close> starts, or \<open>-1\<close>.
\<close>

primrec lastIndexOf_from :: "string \<Rightarrow> string \<Rightarrow> nat \<Rightarrow> int" where
  "lastIndexOf_from s searchString 0 = (if prefix searchString s then 0 else - 1)"
| "lastIndexOf_from s searchString (Suc k) =
     (if prefix searchString (drop (Suc k) s) then int (Suc k)
      else lastIndexOf_from s searchString k)"

definition lastIndexOf :: "string \<Rightarrow> string \<Rightarrow> int" where
  "lastIndexOf s searchString = lastIndexOf_from s searchString (length s)"

text \<open>\<open>String.prototype.slice(start)\<close>: a negative start counts from the end.\<close>

definition slice :: "string \<Rightarrow> int \<Rightarrow> string" where
  "slice s start =
     (let len = int (length s);
          from = (if start < 0 then max (len + start) 0 else min start len)
      in drop (nat from) s)"

text \<open>\<open>String.prototype.padStart(targetLength, padString)\<close>.\<close>

definition padStart :: "string \<Rightarrow> nat \<Rightarrow> string \<Rightarrow> string" where
  "padStart s targetLength padString =
     (if targetLength \<le> length s \<or> padString = [] then s
      else take (targetLength - length s)
             (concat (replicate (targetLength - length s) padString)) @ s)"

subsection \<open>Numbers\<close>

text \<open>
  A number is an IEEE 754 double; a finite one is given by its exact value, a rational.
  The digits of a non-negative integer, over \<open>int\<close>, for the large values that the
  rendering of numbers meets.
\<close>

function decimal_digits :: "int \<Rightarrow> string" where
  "decimal_digits n =
     (if n < 10 then [digit_char (nat n)]
      else decimal_digits (n div 10) @ [digit_char (nat (n mod 10))])"
  by pat_completeness auto
termination
  by (relation "measure nat") auto

declare decimal_digits.simps [simp del]

definition pow2 :: "int \<Rightarrow> rat" where
  "pow2 e = (if 0 \<le> e then 2 ^ nat e else 1 / 2 ^ nat (- e))"

definition pow10 :: "int \<Rightarrow> rat" where
  "pow10 e = (if 0 \<le> e then 10 ^ nat e else 1 / 10 ^ nat (- e))"

text \<open>The exponent \<open>e\<close> of a positive rational \<open>q\<close>: \<open>2^e \<le> q < 2^(e+1)\<close>.\<close>

definition binary_exponent :: "rat \<Rightarrow> int" where
  "binary_exponent q = (if 1 \<le> q then bitlen \<lfloor>q\<rfloor> - 1 else - bitlen (\<lceil>1 / q\<rceil> - 1))"

text \<open>The nearest integer, a tie going to the even one.\<close>

definition round_half_even :: "rat \<Rightarrow> int" where
  "round_half_even q =
     (let f = \<lfloor>q\<rfloor>; r = q - of_int f
      in if r < 1 / 2 then f else if 1 / 2 < r then f + 1 else if even f then f else f + 1)"

text \<open>
  The double nearest to a rational, ties to even: 53 significant bits, and steps of
  \<open>2^-1074\<close> below \<open>2^-1022\<close>. A result from \<open>2^1024\<close> on would be \<open>Infinity\<close>; the
  numbers here stay below it.
\<close>

definition round_double :: "rat \<Rightarrow> rat" where
  "round_double q =
     (if q = 0 then 0
      else if q < 0 then - (let ulp = pow2 (max (binary_exponent (- q)) (- 1022) - 52)
                            in of_int (round_half_even (- q / ulp)) * ulp)
      else (let ulp = pow2 (max (binary_exponent q) (- 1022) - 52)
            in of_int (round_half_even (q / ulp)) * ulp))"

text \<open>The operators \<open>/\<close> and \<open>*\<close> on numbers: the exact result, rounded.\<close>

definition Number_divide :: "rat \<Rightarrow> rat \<Rightarrow> rat" where
  "Number_divide a b = round_double (a / b)"

definition Number_multiply :: "rat \<Rightarrow> rat \<Rightarrow> rat" where
  "Number_multiply a b = round_double (a * b)"

text \<open>
  \<open>Number::toString\<close> on a number from \<open>1e21\<close> on, the only numbers that \<open>toFixed\<close>
  hands to it: the digits \<open>s\<close> (\<open>k\<close> of them, as few as possible, and then as close to
  the number as possible) and the exponent \<open>n\<close> with \<open>s * 10^(n - k)\<close> rounding to the
  number, printed in exponent notation. \<open>represents\<close> is that condition on \<open>n\<close>, \<open>k\<close>,
  \<open>s\<close>; for each \<open>k\<close> the digits to try are the two integers around the scaled number
  and the power of ten above it; seventeen digits always suffice.
\<close>

definition represents :: "rat \<Rightarrow> nat \<Rightarrow> nat \<Rightarrow> int \<Rightarrow> bool" where
  "represents x n k s =
     (10 ^ (k - 1) \<le> s \<and> s < 10 ^ k \<and> round_double (of_int s * pow10 (int n - int k)) = x)"

definition candidates :: "rat \<Rightarrow> nat \<Rightarrow> (nat \<times> int) list" where
  "candidates x k =
     (let n0 = length (decimal_digits \<lfloor>x\<rfloor>);
          s0 = \<lfloor>x / pow10 (int n0 - int k)\<rfloor>
      in [(n0, s0), (n0, s0 + 1), (n0 + 1, 10 ^ (k - 1))])"

definition closer :: "rat \<Rightarrow> nat \<Rightarrow> nat \<times> int \<Rightarrow> nat \<times> int \<Rightarrow> nat \<times> int" where
  "closer x k c d =
     (let dc = \<bar>of_int (snd c) * pow10 (int (fst c) - int k) - x\<bar>;
          dd = \<bar>of_int (snd d) * pow10 (int (fst d) - int k) - x\<bar>
      in if dd < dc \<or> (dd = dc \<and> even (snd d) \<and> odd (snd c)) then d else c)"

primrec shortest_digits :: "rat \<Rightarrow> nat list \<Rightarrow> (nat \<times> nat \<times> int) option" where
  "shortest_digits x [] = None"
| "shortest_digits x (k # ks) =
     (case filter (\<lambda>(n, s). represents x n k s) (candidates x k) of
        [] \<Rightarrow> shortest_digits x ks
      | c # cs \<Rightarrow> (let (n, s) = foldl (closer x k) c cs in Some (n, k, s)))"

definition Number_toString_exponent :: "rat \<Rightarrow> string" where
  "Number_toString_exponent x =
     (case shortest_digits x [1..<18] of
        None \<Rightarrow> []
      | Some (n, k, s) \<Rightarrow>
          (case decimal_digits s of
             [] \<Rightarrow> []
           | a # b \<Rightarrow> (if k = 1 then [a] else a # ''.'' @ b) @ ''e'' @ ''+'' @ Number_toString (n - 1)))"

text \<open>
  \<open>Number.prototype.toFixed(fractionDigits)\<close>: from \<open>1e21\<close> on the number is printed by
  \<open>toString\<close>; below, the integer \<open>n\<close> nearest to \<open>x * 10^f\<close> (the larger one on a tie)
  is printed with a point before its last \<open>f\<close> digits, after padding with zeros.
\<close>

definition toFixed_magnitude :: "rat \<Rightarrow> nat \<Rightarrow> string" where
  "toFixed_magnitude x f =
     (if 10 ^ 21 \<le> x then Number_toString_exponent x
      else
        (let n = \<lfloor>x * 10 ^ f + 1 / 2\<rfloor>;
             m = decimal_digits n
         in if f = 0 then m
            else
              (let m = (if length m \<le> f then replicate (f + 1 - length m) CHR ''0'' @ m else m);
                   k = length m
               in take (k - f) m @ ''.'' @ drop (k - f) m)))"

definition toFixed :: "rat \<Rightarrow> nat \<Rightarrow> string" where
  "toFixed x fractionDigits =
     (if x < 0 then ''-'' @ toFixed_magnitude (- x) fractionDigits
      else toFixed_magnitude x fractionDigits)"

section \<open>The timeline\<close>

text \<open>The colours of \<open>theme\<close> (flipper-plugin) that the two files use.\<close>

datatype theme_color = warningColor | primaryColor | errorColor

text \<open>
  \<open>frameworkEventSeparator\<close> is defined in \<open>FrameworkEventsTreeSelect\<close>, outside these
  files: it is the parameter \<open>frameworkEventSeparator\<close> here.
\<close>

definition eventTypeToName :: "string \<Rightarrow> string \<Rightarrow> string" where
  "eventTypeToName frameworkEventSeparator eventType =
     slice eventType (lastIndexOf eventType frameworkEventSeparator + 1)"

definition threadToColor :: "string option \<Rightarrow> theme_color" where
  "threadToColor thr = (if thr = Some ''main'' then warningColor else primaryColor)"

record TimelineEntry =
  moment :: int
  display :: string
  color :: theme_color
  key :: string

record Timeline =
  time :: "TimelineEntry list"
  current :: string

text \<open>
  The \<open>timeline\<close> prop of \<open>TimelineDataDescription\<close>, from the filtered events: the
  callback of \<open>map\<close> receives each event with its index.
\<close>

definition timeline :: "string \<Rightarrow> FrameworkEvent list \<Rightarrow> Timeline" where
  "timeline frameworkEventSeparator events =
     \<lparr>time = map (\<lambda>(idx, event).
               \<lparr>moment = timestamp event,
                display = eventTypeToName frameworkEventSeparator (type event),
                color = threadToColor (thread event),
                key = Number_toString idx\<rparr>)
             (enumerate 0 events),
      current = ''initialNone''\<rparr>"

section \<open>Formatting of timestamps and durations\<close>

datatype error = RangeError

text \<open>
  \<open>new Date(timestamp)\<close> on an integral number of milliseconds: a time value outside
  \<open>\<plusminus>8.64e15\<close> gives an invalid date (\<open>None\<close>).
\<close>

definition Date_new :: "int \<Rightarrow> int option" where
  "Date_new t = (if \<bar>t\<bar> \<le> 8640000000000000 then Some t else None)"

text \<open>
  \<open>getMilliseconds\<close> reads the milliseconds of the local time. The offset of the local
  time zone is a whole number of seconds; \<open>tzOffsetSeconds\<close> gives it at each time value.
\<close>

definition getMilliseconds :: "(int \<Rightarrow> int) \<Rightarrow> int \<Rightarrow> nat" where
  "getMilliseconds tzOffsetSeconds tv = nat ((tv + 1000 * tzOffsetSeconds tv) mod 1000)"

text \<open>
  \<open>format\<close> stands for \<open>new Intl.DateTimeFormat('en-US', options).format\<close> on a valid
  date; on an invalid date the formatter throws a \<open>RangeError\<close>.
\<close>

definition formatTimestamp ::
  "(int \<Rightarrow> string) \<Rightarrow> (int \<Rightarrow> int) \<Rightarrow> int \<Rightarrow> error + string" where
  "formatTimestamp format tzOffsetSeconds t =
     (case Date_new t of
        None \<Rightarrow> Inl RangeError
      | Some date \<Rightarrow>
          (let formattedDate = format date;
               milliseconds = getMilliseconds tzOffsetSeconds date
           in Inr (formattedDate @ ''.'' @ padStart (Number_toString milliseconds) 3 ''0'')))"

text \<open>
  \<open>nanoseconds\<close> is a number whose value is a non-negative integer.
\<close>

definition formatDuration :: "nat \<Rightarrow> string" where
  "formatDuration nanoseconds =
     (if nanoseconds < 1000 then
        Number_toString nanoseconds @ '' nanoseconds''
      else if nanoseconds < 1000000 then
        toFixed (Number_divide (of_nat nanoseconds) 1000) 2 @ '' microseconds''
      else if nanoseconds < 1000000000 then
        toFixed (Number_divide (of_nat nanoseconds) 1000000) 2 @ '' milliseconds''
      else if nanoseconds < 1000000000000 then
        toFixed (Number_divide (of_nat nanoseconds) 1000000000) 2 @ '' seconds''
      else
        toFixed (Number_divide (of_nat nanoseconds) (Number_multiply 1000000000 60)) 2 @ '' minutes'')"

text \<open>
  The specification that the output of \<open>formatDuration\<close> is compared with: a value
  fixed to two decimal places, that is its integer part, a point and two digits, of
  the value rounded to the nearest hundredth.
\<close>

definition two_decimal_places :: "rat \<Rightarrow> string" where
  "two_decimal_places x =
     (let h = \<lfloor>x * 100 + 1 / 2\<rfloor>
      in decimal_digits (h div 100) @ ''.'' @
         [digit_char (nat (h div 10 mod 10)), digit_char (nat (h mod 10))])"

section \<open>The options of an enum search term\<close>

record SelectOption =
  option_label :: string
  option_value :: string

text \<open>
  \<open>enumLabels\<close> is given by its own properties in enumeration order, which is what
  \<open>Object.entries\<close> returns.
\<close>

definition options :: "(string \<times> string) list \<Rightarrow> SelectOption list" where
  "options enumLabels = map (\<lambda>(k, l). \<lparr>option_label = l, option_value = k\<rparr>) enumLabels"

section \<open>Row styles of the connectivity log\<close>

text \<open>
  A style object is the list of its properties in order. Spreading an object and then
  setting \<open>color\<close> keeps the properties and sets that one (\<open>AList.update\<close>).
  \<open>theme.monospace\<close> comes from flipper-plugin: it is the parameter \<open>monospace\<close>.
\<close>

datatype css_value = CssText string | CssColor theme_color

type_synonym CSSProperties = "(string \<times> css_value) list"

datatype ReactNode = CloseCircleFilled CSSProperties

definition iconStyle :: CSSProperties where
  "iconStyle = [(''fontSize'', CssText ''16px'')]"

definition baseRowStyle :: "CSSProperties \<Rightarrow> CSSProperties" where
  "baseRowStyle monospace = monospace"

record LogType =
  label :: string
  icon :: "ReactNode option"
  style :: "CSSProperties option"
  enabled :: bool

definition logTypes :: "CSSProperties \<Rightarrow> (string \<times> LogType) list" where
  "logTypes monospace =
     [(''log'', \<lparr>label = ''Log'', icon = None, style = None, enabled = True\<rparr>),
      (''cmd'',
        \<lparr>label = ''Shell'',
         icon = Some (CloseCircleFilled iconStyle),
         style = Some (AList.update ''color'' (CssColor primaryColor) (baseRowStyle monospace)),
         enabled = True\<rparr>),
      (''error'',
        \<lparr>label = ''Error'',
         icon = Some (CloseCircleFilled iconStyle),
         style = Some (AList.update ''color'' (CssColor errorColor) (baseRowStyle monospace)),
         enabled = True\<rparr>)]"

text \<open>
  \<open>logTypes[entry.type]?.style ?? baseRowStyle\<close>: a type that \<open>logTypes\<close> does not
  list, and a listed type without a style, both give \<open>undefined\<close> on the left of
  \<open>??\<close>.
\<close>

definition getRowStyle :: "CSSProperties \<Rightarrow> ConnectionRecordEntry \<Rightarrow> CSSProperties" where
  "getRowStyle monospace entry =
     (case map_of (logTypes monospace) (ConnectionRecordEntry.type entry) of
        None \<Rightarrow> baseRowStyle monospace
      | Some logType \<Rightarrow>
          (case style logType of
             None \<Rightarrow> baseRowStyle monospace
           | Some s \<Rightarrow> s))"

section \<open>The left menu of the application shell\<close>

datatype ReactElement = AppInspect | Notification

text \<open>
  The two values of the store that \<open>SandyApp\<close> reads for the left menu; a selection
  that is not set is \<open>None\<close>, and \<open>null\<close> content is \<open>None\<close>.
\<close>

definition leftMenuContent :: "bool \<Rightarrow> string option \<Rightarrow> ReactElement option" where
  "leftMenuContent leftSidebarVisible topLevelSelection =
     (if \<not> leftSidebarVisible then None
      else if topLevelSelection = Some ''appinspect'' then Some AppInspect
      else if topLevelSelection = Some ''notification'' then Some Notification
      else None)"

section \<open>Properties\<close>

subsection \<open>Filtering\<close>

text \<open>
  C1. For every list of events and every pair of filter sets, the filtered list holds
  exactly the events whose type passes the type filter (the filter is empty or contains
  the type) and whose thread passes the thread filter (the filter is empty or contains
  the thread, absent or not), in the order of the input list.
\<close>

theorem filteredEvents_exact:
  "filteredEvents events filteredEventTypes filteredThreads =
     filter (\<lambda>e. (filteredEventTypes = [] \<or> type e \<in> set filteredEventTypes) \<and>
                 (filteredThreads = [] \<or> thread e \<in> set filteredThreads)) events
   \<and> set (filteredEvents events filteredEventTypes filteredThreads) =
       {e \<in> set events. (filteredEventTypes = [] \<or> type e \<in> set filteredEventTypes) \<and>
                 (filteredThreads = [] \<or> thread e \<in> set filteredThreads)}
   \<and> subseq (filteredEvents events filteredEventTypes filteredThreads) events"
proof -
  have eq: "filteredEvents events filteredEventTypes filteredThreads =
     filter (\<lambda>e. (filteredEventTypes = [] \<or> type e \<in> set filteredEventTypes) \<and>
                 (filteredThreads = [] \<or> thread e \<in> set filteredThreads)) events"
    unfolding filteredEvents_def Set_size_def Set_has_def
    by (simp add: conj_commute)
  show ?thesis
    unfolding eq by auto
qed

theorem filteredEvents_exact_witness:
  "map timestamp (filteredEvents
     [\<lparr>type = ''a'', thread = Some ''main'', timestamp = 1, duration = None\<rparr>,
      \<lparr>type = ''b'', thread = None, timestamp = 2, duration = None\<rparr>,
      \<lparr>type = ''a'', thread = Some ''main'', timestamp = 3, duration = None\<rparr>,
      \<lparr>type = ''c'', thread = Some ''bg'', timestamp = 4, duration = None\<rparr>,
      \<lparr>type = ''b'', thread = None, timestamp = 5, duration = None\<rparr>]
     Set_new (onSelect_thread None True Set_new)) = [2, 5] \<and>
   map timestamp (filteredEvents
     [\<lparr>type = ''a'', thread = Some ''main'', timestamp = 1, duration = None\<rparr>,
      \<lparr>type = ''b'', thread = None, timestamp = 2, duration = None\<rparr>,
      \<lparr>type = ''a'', thread = Some ''main'', timestamp = 3, duration = None\<rparr>,
      \<lparr>type = ''c'', thread = Some ''bg'', timestamp = 4, duration = None\<rparr>,
      \<lparr>type = ''b'', thread = None, timestamp = 5, duration = None\<rparr>]
     [''a'', ''b''] [Some ''main'']) = [1, 3]"
  using
    filteredEvents_exact [of
     "[\<lparr>type = ''a'', thread = Some ''main'', timestamp = 1, duration = None\<rparr>,
      \<lparr>type = ''b'', thread = None, timestamp = 2, duration = None\<rparr>,
      \<lparr>type = ''a'', thread = Some ''main'', timestamp = 3, duration = None\<rparr>,
      \<lparr>type = ''c'', thread = Some ''bg'', timestamp = 4, duration = None\<rparr>,
      \<lparr>type = ''b'', thread = None, timestamp = 5, duration = None\<rparr>]" "[]" "[None]"]
    filteredEvents_exact [of
     "[\<lparr>type = ''a'', thread = Some ''main'', timestamp = 1, duration = None\<rparr>,
      \<lparr>type = ''b'', thread = None, timestamp = 2, duration = None\<rparr>,
      \<lparr>type = ''a'', thread = Some ''main'', timestamp = 3, duration = None\<rparr>,
      \<lparr>type = ''c'', thread = Some ''bg'', timestamp = 4, duration = None\<rparr>,
      \<lparr>type = ''b'', thread = None, timestamp = 5, duration = None\<rparr>]"
     "[''a'', ''b'']" "[Some ''main'']"]
  by (simp add: Set_new_def onSelect_thread_def produce_def Set_add_def)

subsection \<open>Selecting and deselecting a filter value\<close>

text \<open>
  C4. For both filter sets, the update of \<open>onSelect\<close> with \<open>selected = true\<close> gives the
  set with the value added, and with \<open>selected = false\<close> the set with the value removed;
  a set without repetitions stays so, and selecting and then deselecting a value that
  was not in the set gives the original set back.
\<close>

theorem onSelect_add_delete:
  "set (onSelect_thread t True curT) = insert t (set curT) \<and>
   set (onSelect_thread t False curT) = set curT - {t} \<and>
   set (onSelect_eventType v True cur) = insert v (set cur) \<and>
   set (onSelect_eventType v False cur) = set cur - {v} \<and>
   (distinct curT \<longrightarrow> distinct (onSelect_thread t selected curT)) \<and>
   (distinct cur \<longrightarrow> distinct (onSelect_eventType v selected cur)) \<and>
   (t \<notin> set curT \<longrightarrow> onSelect_thread t False (onSelect_thread t True curT) = curT) \<and>
   (v \<notin> set cur \<longrightarrow> onSelect_eventType v False (onSelect_eventType v True cur) = cur)"
  by (auto simp: onSelect_thread_def onSelect_eventType_def produce_def Set_add_def Set_delete_def
      filter_id_conv)

theorem onSelect_add_delete_witness:
  "distinct [Some ''main'', None] \<and> Some ''ui'' \<notin> set [Some ''main'', None] \<and>
   distinct [''Layout'', ''Mount''] \<and> ''Draw'' \<notin> set [''Layout'', ''Mount''] \<and>
   onSelect_thread (Some ''ui'') True [Some ''main'', None] = [Some ''main'', None, Some ''ui''] \<and>
   onSelect_thread (Some ''ui'') False (onSelect_thread (Some ''ui'') True [Some ''main'', None]) =
     [Some ''main'', None] \<and>
   onSelect_eventType ''Draw'' True [''Layout'', ''Mount''] = [''Layout'', ''Mount'', ''Draw''] \<and>
   onSelect_eventType ''Draw'' False (onSelect_eventType ''Draw'' True [''Layout'', ''Mount'']) =
     [''Layout'', ''Mount''] \<and>
   distinct (onSelect_thread (Some ''ui'') True [Some ''main'', None]) \<and>
   distinct (onSelect_eventType ''Draw'' True [''Layout'', ''Mount''])"
  using onSelect_add_delete [of "Some ''ui''" "[Some ''main'', None]" "''Draw''"
      "[''Layout'', ''Mount'']" True]
  by (simp add: onSelect_thread_def onSelect_eventType_def produce_def Set_add_def)

subsection \<open>Row styles\<close>

text \<open>
  C5. \<open>getRowStyle\<close> returns the style that \<open>logTypes\<close> registers for the type of the
  entry when there is one, and the base row style, which is the monospace style,
  otherwise; entries of type \<open>log\<close> and entries of a type that \<open>logTypes\<close> does not list
  get the base row style.
\<close>

theorem getRowStyle_lookup:
  "(\<forall>logType s. map_of (logTypes monospace) (ConnectionRecordEntry.type entry) = Some logType \<and>
        style logType = Some s \<longrightarrow> getRowStyle monospace entry = s) \<and>
   ((\<forall>logType. map_of (logTypes monospace) (ConnectionRecordEntry.type entry) = Some logType \<longrightarrow>
        style logType = None) \<longrightarrow> getRowStyle monospace entry = baseRowStyle monospace) \<and>
   baseRowStyle monospace = monospace \<and>
   (ConnectionRecordEntry.type entry = ''log'' \<longrightarrow>
      getRowStyle monospace entry = baseRowStyle monospace) \<and>
   (ConnectionRecordEntry.type entry \<notin> {''log'', ''cmd'', ''error''} \<longrightarrow>
      getRowStyle monospace entry = baseRowStyle monospace)"
  by (auto simp: getRowStyle_def baseRowStyle_def logTypes_def split: option.splits)

theorem getRowStyle_lookup_witness:
  "getRowStyle [(''fontFamily'', CssText ''monospace'')]
     \<lparr>ConnectionRecordEntry.type = ''cmd'', device = ''d'', app = ''a'', medium = ''m'', message = ''x''\<rparr> =
     [(''fontFamily'', CssText ''monospace''), (''color'', CssColor primaryColor)] \<and>
   getRowStyle [(''fontFamily'', CssText ''monospace'')]
     \<lparr>ConnectionRecordEntry.type = ''log'', device = ''d'', app = ''a'', medium = ''m'', message = ''x''\<rparr> =
     [(''fontFamily'', CssText ''monospace'')] \<and>
   getRowStyle [(''fontFamily'', CssText ''monospace'')]
     \<lparr>ConnectionRecordEntry.type = ''info'', device = ''d'', app = ''a'', medium = ''m'', message = ''x''\<rparr> =
     [(''fontFamily'', CssText ''monospace'')]"
  using
    getRowStyle_lookup [of "[(''fontFamily'', CssText ''monospace'')]"
      "\<lparr>ConnectionRecordEntry.type = ''cmd'', device = ''d'', app = ''a'', medium = ''m'', message = ''x''\<rparr>"]
    getRowStyle_lookup [of "[(''fontFamily'', CssText ''monospace'')]"
      "\<lparr>ConnectionRecordEntry.type = ''log'', device = ''d'', app = ''a'', medium = ''m'', message = ''x''\<rparr>"]
    getRowStyle_lookup [of "[(''fontFamily'', CssText ''monospace'')]"
      "\<lparr>ConnectionRecordEntry.type = ''info'', device = ''d'', app = ''a'', medium = ''m'', message = ''x''\<rparr>"]
  by (simp add: logTypes_def baseRowStyle_def)

subsection \<open>The left menu\<close>

text \<open>
  C7. The left menu content is the AppInspect view exactly when the left sidebar is
  visible and the selection is \<open>appinspect\<close>, the Notification view exactly when the
  sidebar is visible and the selection is \<open>notification\<close>, and null in every other
  state, in particular whenever the sidebar is not visible.
\<close>

theorem leftMenuContent_cases:
  "(leftMenuContent leftSidebarVisible topLevelSelection = Some AppInspect) =
     (leftSidebarVisible \<and> topLevelSelection = Some ''appinspect'') \<and>
   (leftMenuContent leftSidebarVisible topLevelSelection = Some Notification) =
     (leftSidebarVisible \<and> topLevelSelection = Some ''notification'') \<and>
   (leftMenuContent leftSidebarVisible topLevelSelection = None) =
     (\<not> (leftSidebarVisible \<and> topLevelSelection = Some ''appinspect'') \<and>
      \<not> (leftSidebarVisible \<and> topLevelSelection = Some ''notification'')) \<and>
   leftMenuContent False topLevelSelection = None"
  by (auto simp: leftMenuContent_def)

subsection \<open>Options of an enum search term\<close>

text \<open>
  C9. The options list has one option per key of \<open>enumLabels\<close>, in enumeration order:
  the values of the options are the keys and their labels the labels, position by
  position, so that no option is added, dropped or relabelled.
\<close>

theorem options_entries:
  "length (options enumLabels) = length enumLabels \<and>
   map option_value (options enumLabels) = map fst enumLabels \<and>
   map option_label (options enumLabels) = map snd enumLabels \<and>
   (\<forall>i < length enumLabels.
      option_value (options enumLabels ! i) = fst (enumLabels ! i) \<and>
      option_label (options enumLabels ! i) = snd (enumLabels ! i))"
  by (simp add: options_def case_prod_unfold comp_def)

theorem options_entries_witness:
  "length (options [(''a'', ''Alpha''), (''b'', ''Beta'')]) = 2 \<and>
   map option_value (options [(''a'', ''Alpha''), (''b'', ''Beta'')]) = [''a'', ''b''] \<and>
   option_value (options [(''a'', ''Alpha''), (''b'', ''Beta'')] ! 1) = ''b'' \<and>
   option_label (options [(''a'', ''Alpha''), (''b'', ''Beta'')] ! 1) = ''Beta''"
  using options_entries [of "[(''a'', ''Alpha''), (''b'', ''Beta'')]"]
  by simp

subsection \<open>Decimal digits\<close>

lemma of_char_digit_char: "d < 10 \<Longrightarrow> (of_char (digit_char d) :: nat) = 48 + d"
  by (simp add: digit_char_def)

lemma is_digit_digit_char: "d < 10 \<Longrightarrow> is_digit (digit_char d)"
  by (simp add: is_digit_def of_char_digit_char)

lemma decimal_value_snoc:
  "decimal_value (s @ [c]) = 10 * decimal_value s + (of_char c - 48)"
  by (simp add: decimal_value_def)

lemma Number_toString_digits: "\<forall>c \<in> set (Number_toString n). is_digit c"
proof (induction n rule: Number_toString.induct)
  case (1 n)
  show ?case
  proof (cases "n < 10")
    case True
    then show ?thesis
      by (subst Number_toString.simps) (simp add: is_digit_digit_char)
  next
    case False
    with 1 show ?thesis
      by (subst Number_toString.simps) (simp add: is_digit_digit_char)
  qed
qed

lemma decimal_value_Number_toString: "decimal_value (Number_toString n) = n"
proof (induction n rule: Number_toString.induct)
  case (1 n)
  show ?case
  proof (cases "n < 10")
    case True
    then show ?thesis
      by (subst Number_toString.simps) (simp add: decimal_value_def of_char_digit_char)
  next
    case False
    with 1 show ?thesis
      by (subst Number_toString.simps) (simp add: decimal_value_snoc of_char_digit_char)
  qed
qed

lemma length_Number_toString_le3: "n < 1000 \<Longrightarrow> length (Number_toString n) \<le> 3"
proof -
  assume n: "n < 1000"
  have one: "m < 10 \<Longrightarrow> length (Number_toString m) = 1" for m
    by (subst Number_toString.simps) simp
  have two: "m < 100 \<Longrightarrow> length (Number_toString m) \<le> 2" for m
    by (subst Number_toString.simps) (simp add: one)
  show ?thesis
    using n by (subst Number_toString.simps) (auto simp: two le_Suc_eq dest!: two [of "n div 10"])
qed

lemma Number_toString_nonempty: "Number_toString n \<noteq> []"
  by (subst Number_toString.simps) simp

lemma padStart_zero_3:
  assumes "n < 1000"
  shows "length (padStart (Number_toString n) 3 ''0'') = 3"
    and "\<forall>c \<in> set (padStart (Number_toString n) 3 ''0''). is_digit c"
    and "decimal_value (padStart (Number_toString n) 3 ''0'') = n"
proof -
  let ?d = "Number_toString n"
  have len: "length ?d \<le> 3" "?d \<noteq> []"
    using assms by (simp_all add: length_Number_toString_le3 Number_toString_nonempty)
  have pad: "padStart ?d 3 ''0'' = replicate (3 - length ?d) CHR ''0'' @ ?d"
    using len by (auto simp: padStart_def)
  show "length (padStart ?d 3 ''0'') = 3"
    unfolding pad using len by simp
  have z: "is_digit CHR ''0''"
    by (simp add: is_digit_def)
  show "\<forall>c \<in> set (padStart ?d 3 ''0''). is_digit c"
    unfolding pad using Number_toString_digits [of n] z by auto
  have "foldl (\<lambda>acc c. 10 * acc + (of_char c - 48)) 0 (replicate k CHR ''0'') = (0::nat)" for k
    by (induction k) simp_all
  then show "decimal_value (padStart ?d 3 ''0'') = n"
    unfolding pad using decimal_value_Number_toString [of n]
    by (simp add: decimal_value_def)
qed

subsection \<open>Threads and event types\<close>

lemma baseUniq_keys:
  "seen = map f result \<Longrightarrow>
   map f (baseUniq f array seen result) =
     seen @ filter (\<lambda>k. k \<notin> set seen) (first_occurrences (map f array))"
proof (induction array arbitrary: seen result)
  case Nil
  then show ?case by simp
next
  case (Cons v array)
  show ?case
  proof (cases "f v \<in> set seen")
    case True
    have "filter (\<lambda>k. k \<notin> set seen) (filter (\<lambda>y. y \<noteq> f v) (first_occurrences (map f array)))
          = filter (\<lambda>k. k \<notin> set seen) (first_occurrences (map f array))"
      using True by (auto intro: filter_cong)
    with True Cons.IH [OF Cons.prems] show ?thesis
      by (simp add: Let_def)
  next
    case False
    have s: "seen @ [f v] = map f (result @ [v])"
      using Cons.prems by simp
    have "filter (\<lambda>k. k \<notin> set (seen @ [f v])) (first_occurrences (map f array))
          = filter (\<lambda>k. k \<notin> set seen) (filter (\<lambda>y. y \<noteq> f v) (first_occurrences (map f array)))"
      by (auto intro: filter_cong)
    with False Cons.IH [OF s] show ?thesis
      by (simp add: Let_def)
  qed
qed

lemma uniqBy_keys: "map f (uniqBy array f) = first_occurrences (map f array)"
  using baseUniq_keys [of "[]" f "[]" array] by (simp add: uniqBy_def)

lemma set_first_occurrences: "set (first_occurrences xs) = set xs"
  by (induction xs) auto

lemma distinct_first_occurrences: "distinct (first_occurrences xs)"
  by (induction xs) auto

lemma first_index_Cons:
  "first_index (x # xs) v = (if v = x then 0 else Suc (first_index xs v))"
  by (simp add: first_index_def)

lemma sorted_first_occurrences:
  "sorted_wrt (\<lambda>a b. first_index xs a < first_index xs b) (first_occurrences xs)"
proof (induction xs)
  case Nil
  then show ?case by simp
next
  case (Cons x xs)
  have "sorted_wrt (\<lambda>a b. first_index xs a < first_index xs b)
          (filter (\<lambda>y. y \<noteq> x) (first_occurrences xs))"
    using Cons.IH by (rule sorted_wrt_filter)
  then have "sorted_wrt (\<lambda>a b. first_index (x # xs) a < first_index (x # xs) b)
          (filter (\<lambda>y. y \<noteq> x) (first_occurrences xs))"
    by (rule sorted_wrt_mono_rel [rotated]) (simp add: first_index_Cons)
  then show ?case
    by (simp add: first_index_Cons)
qed

text \<open>
  C10. For every list of events, \<open>allThreads\<close> and \<open>allEventTypes\<close> hold each thread
  (each event type) that occurs in the events exactly once, in the order of first
  occurrence: neither list repeats a value, each has the values of the events, and
  the positions of first occurrence increase along each list.
\<close>

theorem allThreads_allEventTypes_first_occurrence:
  "distinct (allThreads events) \<and>
   set (allThreads events) = thread ` set events \<and>
   sorted_wrt (\<lambda>a b. first_index (map thread events) a < first_index (map thread events) b)
     (allThreads events) \<and>
   distinct (allEventTypes events) \<and>
   set (allEventTypes events) = type ` set events \<and>
   sorted_wrt (\<lambda>a b. first_index (map type events) a < first_index (map type events) b)
     (allEventTypes events)"
  by (simp add: allThreads_def allEventTypes_def uniqBy_keys distinct_first_occurrences
      set_first_occurrences sorted_first_occurrences)

theorem allThreads_allEventTypes_first_occurrence_witness:
  "allThreads
     [\<lparr>type = ''a'', thread = Some ''main'', timestamp = 1, duration = None\<rparr>,
      \<lparr>type = ''b'', thread = None, timestamp = 2, duration = None\<rparr>,
      \<lparr>type = ''a'', thread = Some ''main'', timestamp = 3, duration = None\<rparr>,
      \<lparr>type = ''c'', thread = Some ''bg'', timestamp = 4, duration = None\<rparr>,
      \<lparr>type = ''b'', thread = None, timestamp = 5, duration = None\<rparr>] = [Some ''main'', None, Some ''bg''] \<and>
   distinct (allThreads
     [\<lparr>type = ''a'', thread = Some ''main'', timestamp = 1, duration = None\<rparr>,
      \<lparr>type = ''b'', thread = None, timestamp = 2, duration = None\<rparr>,
      \<lparr>type = ''a'', thread = Some ''main'', timestamp = 3, duration = None\<rparr>,
      \<lparr>type = ''c'', thread = Some ''bg'', timestamp = 4, duration = None\<rparr>,
      \<lparr>type = ''b'', thread = None, timestamp = 5, duration = None\<rparr>]) \<and>
   allEventTypes
     [\<lparr>type = ''a'', thread = Some ''main'', timestamp = 1, duration = None\<rparr>,
      \<lparr>type = ''b'', thread = None, timestamp = 2, duration = None\<rparr>,
      \<lparr>type = ''a'', thread = Some ''main'', timestamp = 3, duration = None\<rparr>,
      \<lparr>type = ''c'', thread = Some ''bg'', timestamp = 4, duration = None\<rparr>,
      \<lparr>type = ''b'', thread = None, timestamp = 5, duration = None\<rparr>] = [''a'', ''b'', ''c'']"
  using allThreads_allEventTypes_first_occurrence [of
     "[\<lparr>type = ''a'', thread = Some ''main'', timestamp = 1, duration = None\<rparr>,
      \<lparr>type = ''b'', thread = None, timestamp = 2, duration = None\<rparr>,
      \<lparr>type = ''a'', thread = Some ''main'', timestamp = 3, duration = None\<rparr>,
      \<lparr>type = ''c'', thread = Some ''bg'', timestamp = 4, duration = None\<rparr>,
      \<lparr>type = ''b'', thread = None, timestamp = 5, duration = None\<rparr>]"]
  by (simp add: allThreads_def allEventTypes_def uniqBy_def)

subsection \<open>Names of event types\<close>

lemma lastIndexOf_from_none:
  "(\<forall>i \<le> k. \<not> prefix sep (drop i s)) \<Longrightarrow> lastIndexOf_from s sep k = - 1"
  by (induction k) auto

lemma lastIndexOf_from_last:
  "j \<le> k \<Longrightarrow> prefix sep (drop j s) \<Longrightarrow> (\<forall>i. j < i \<and> i \<le> k \<longrightarrow> \<not> prefix sep (drop i s)) \<Longrightarrow>
   lastIndexOf_from s sep k = int j"
proof (induction k)
  case 0
  then show ?case by simp
next
  case (Suc k)
  show ?case
  proof (cases "j = Suc k")
    case True
    with Suc.prems show ?thesis by simp
  next
    case False
    with Suc.prems have "j \<le> k" "\<not> prefix sep (drop (Suc k) s)" by auto
    with Suc show ?thesis by simp
  qed
qed

lemma prefix_drop_sublist: "prefix sep (drop i s) \<Longrightarrow> sublist sep s"
  by (metis append_take_drop_id prefix_def sublist_def)

lemma lastIndexOf_absent: "\<not> sublist sep s \<Longrightarrow> lastIndexOf s sep = - 1"
  unfolding lastIndexOf_def
  by (rule lastIndexOf_from_none) (auto dest: prefix_drop_sublist)

lemma lastIndexOf_char:
  assumes "c \<notin> set b"
  shows "lastIndexOf (a @ [c] @ b) [c] = int (length a)"
  unfolding lastIndexOf_def
proof (rule lastIndexOf_from_last)
  show "length a \<le> length (a @ [c] @ b)" by simp
  show "prefix [c] (drop (length a) (a @ [c] @ b))" by simp
  show "\<forall>i. length a < i \<and> i \<le> length (a @ [c] @ b) \<longrightarrow> \<not> prefix [c] (drop i (a @ [c] @ b))"
  proof (intro allI impI notI)
    fix i
    assume i: "length a < i \<and> i \<le> length (a @ [c] @ b)"
      and p: "prefix [c] (drop i (a @ [c] @ b))"
    from i have "drop i (a @ [c] @ b) = drop (i - Suc (length a)) b"
      by (simp add: Suc_diff_Suc drop_Cons')
    with p have "c \<in> set (drop (i - Suc (length a)) b)"
      by (auto simp: prefix_def)
    with assms show False
      by (auto dest: in_set_dropD)
  qed
qed

lemma sublist_single: "sublist [c] b = (c \<in> set b)"
  by (auto simp: sublist_def in_set_conv_decomp)

text \<open>
  C8. For an event type that does not contain the separator, \<open>lastIndexOf\<close> is \<open>-1\<close> and
  \<open>eventTypeToName\<close> returns the whole string; for an event type that contains the
  separator, a single character, it returns what follows the last occurrence.
\<close>

theorem eventTypeToName_after_last_separator:
  "(\<not> sublist sep eventType \<longrightarrow>
      lastIndexOf eventType sep = - 1 \<and> eventTypeToName sep eventType = eventType) \<and>
   (length sep = 1 \<and> eventType = a @ sep @ b \<and> \<not> sublist sep b \<longrightarrow>
      lastIndexOf eventType sep = int (length a) \<and> eventTypeToName sep eventType = b)"
proof -
  have absent: "lastIndexOf eventType sep = - 1 \<and> eventTypeToName sep eventType = eventType"
    if "\<not> sublist sep eventType"
    using that by (simp add: eventTypeToName_def lastIndexOf_absent slice_def)
  have present: "lastIndexOf eventType sep = int (length a) \<and> eventTypeToName sep eventType = b"
    if h: "length sep = 1 \<and> eventType = a @ sep @ b \<and> \<not> sublist sep b"
  proof -
    from h obtain c where c: "sep = [c]"
      by (cases sep) auto
    with h have "c \<notin> set b" "eventType = a @ [c] @ b"
      by (simp_all add: sublist_single)
    moreover have "nat (int (length a) + 1) = Suc (length a)"
      by simp
    ultimately show ?thesis
      using lastIndexOf_char [of c b a] c
      by (simp add: eventTypeToName_def slice_def)
  qed
  from absent present show ?thesis
    by blast
qed

theorem eventTypeToName_after_last_separator_witness:
  "\<not> sublist ''.'' ''Measure'' \<and> eventTypeToName ''.'' ''Measure'' = ''Measure'' \<and>
   length ''.'' = 1 \<and> ''Litho.Layout.Measure'' = ''Litho.Layout'' @ ''.'' @ ''Measure'' \<and>
   lastIndexOf ''Litho.Layout.Measure'' ''.'' = 12 \<and>
   eventTypeToName ''.'' ''Litho.Layout.Measure'' = ''Measure''"
proof -
  have n: "\<not> sublist ''.'' ''Measure''"
    by (simp add: sublist_single)
  show ?thesis
    using n eventTypeToName_after_last_separator [of "''.''" "''Measure''"]
      eventTypeToName_after_last_separator [of "''.''" "''Litho.Layout.Measure''" "''Litho.Layout''" "''Measure''"]
    by simp
qed

subsection \<open>Entries of the timeline\<close>

text \<open>
  C3. The timeline has one entry per filtered event, in order; the entry at index \<open>i\<close>
  has the timestamp of the event as moment, \<open>eventTypeToName\<close> of its type as display,
  \<open>threadToColor\<close> of its thread as color, and the decimal string of \<open>i\<close> as key.
\<close>

theorem timeline_entries:
  "length (time (timeline sep events)) = length events \<and>
   current (timeline sep events) = ''initialNone'' \<and>
   (\<forall>i < length events.
      time (timeline sep events) ! i =
        \<lparr>moment = timestamp (events ! i),
         display = eventTypeToName sep (type (events ! i)),
         color = threadToColor (thread (events ! i)),
         key = Number_toString i\<rparr> \<and>
      decimal_value (key (time (timeline sep events) ! i)) = i)"
  by (simp add: timeline_def nth_enumerate_eq decimal_value_Number_toString)

theorem timeline_entries_witness:
  "time (timeline ''.''
     [\<lparr>type = ''Litho.Layout'', thread = Some ''main'', timestamp = 1700000000042, duration = None\<rparr>,
      \<lparr>type = ''Mount'', thread = None, timestamp = 1700000000050, duration = Some 1500\<rparr>]) ! 1 =
   \<lparr>moment = 1700000000050, display = ''Mount'', color = primaryColor, key = ''1''\<rparr> \<and>
   time (timeline ''.''
     [\<lparr>type = ''Litho.Layout'', thread = Some ''main'', timestamp = 1700000000042, duration = None\<rparr>,
      \<lparr>type = ''Mount'', thread = None, timestamp = 1700000000050, duration = Some 1500\<rparr>]) ! 0 =
   \<lparr>moment = 1700000000042, display = ''Layout'', color = warningColor, key = ''0''\<rparr>"
proof -
  have n: "Number_toString 0 = ''0''" "Number_toString 1 = ''1''"
    by code_simp+
  have e: "eventTypeToName ''.'' ''Mount'' = ''Mount''" "eventTypeToName ''.'' ''Litho.Layout'' = ''Layout''"
    by code_simp+
  show ?thesis
    using timeline_entries [of "''.''"
     "[\<lparr>type = ''Litho.Layout'', thread = Some ''main'', timestamp = 1700000000042, duration = None\<rparr>,
      \<lparr>type = ''Mount'', thread = None, timestamp = 1700000000050, duration = Some 1500\<rparr>]"] n e
    by (simp add: threadToColor_def All_less_Suc numeral_2_eq_2)
qed

subsection \<open>Timestamps\<close>

lemma getMilliseconds_mod: "int (getMilliseconds tz t) = t mod 1000"
  by (simp add: getMilliseconds_def)

lemma getMilliseconds_less: "getMilliseconds tz t < 1000"
  by (simp add: getMilliseconds_def nat_less_iff)

text \<open>
  C6. For every timestamp, the string that \<open>formatTimestamp\<close> returns ends with a dot
  and exactly three digits, which are the milliseconds of the timestamp (the timestamp
  modulo 1000) padded with zeros on the left to width 3. A string is returned for every
  timestamp in the range of dates.
\<close>

theorem formatTimestamp_milliseconds:
  "(\<bar>t\<bar> \<le> 8640000000000000 \<longrightarrow> (\<exists>s. formatTimestamp format tz t = Inr s)) \<and>
   (\<forall>s. formatTimestamp format tz t = Inr s \<longrightarrow>
      (\<exists>formattedDate ms.
         s = formattedDate @ ''.'' @ ms \<and>
         length ms = 3 \<and> (\<forall>c \<in> set ms. is_digit c) \<and>
         int (decimal_value ms) = t mod 1000 \<and>
         ms = padStart (Number_toString (nat (t mod 1000))) 3 ''0''))"
proof (intro conjI allI impI)
  assume "\<bar>t\<bar> \<le> 8640000000000000"
  then show "\<exists>s. formatTimestamp format tz t = Inr s"
    by (simp add: formatTimestamp_def Date_new_def)
next
  fix s
  assume r: "formatTimestamp format tz t = Inr s"
  let ?m = "getMilliseconds tz t"
  let ?ms = "padStart (Number_toString ?m) 3 ''0''"
  have s: "s = format t @ ''.'' @ ?ms"
    using r by (auto simp: formatTimestamp_def Date_new_def Let_def split: if_splits)
  have m: "?m = nat (t mod 1000)"
    using getMilliseconds_mod [of tz t] by simp
  have "length ?ms = 3" "\<forall>c \<in> set ?ms. is_digit c" "int (decimal_value ?ms) = t mod 1000"
    using padStart_zero_3 [OF getMilliseconds_less [of tz t]] getMilliseconds_mod [of tz t]
    by simp_all
  with s m show "\<exists>formattedDate ms.
         s = formattedDate @ ''.'' @ ms \<and>
         length ms = 3 \<and> (\<forall>c \<in> set ms. is_digit c) \<and>
         int (decimal_value ms) = t mod 1000 \<and>
         ms = padStart (Number_toString (nat (t mod 1000))) 3 ''0''"
    by metis
qed

theorem formatTimestamp_milliseconds_witness:
  "\<bar>1700000000042\<bar> \<le> (8640000000000000 :: int) \<and>
   formatTimestamp (\<lambda>t. ''12:34:56'') (\<lambda>t. 3600) 1700000000042 = Inr ''12:34:56.042'' \<and>
   (\<exists>formattedDate ms.
      ''12:34:56.042'' = formattedDate @ ''.'' @ ms \<and> length ms = 3 \<and>
      (\<forall>c \<in> set ms. is_digit c) \<and>
      int (decimal_value ms) = 1700000000042 mod 1000 \<and>
      ms = padStart (Number_toString (nat (1700000000042 mod 1000))) 3 ''0'')"
proof -
  have r: "formatTimestamp (\<lambda>t. ''12:34:56'') (\<lambda>t. 3600) 1700000000042 = Inr ''12:34:56.042''"
    by code_simp
  have c: "\<exists>formattedDate ms.
      ''12:34:56.042'' = formattedDate @ ''.'' @ ms \<and> length ms = 3 \<and>
      (\<forall>c \<in> set ms. is_digit c) \<and>
      int (decimal_value ms) = 1700000000042 mod 1000 \<and>
      ms = padStart (Number_toString (nat (1700000000042 mod 1000))) 3 ''0''"
    using formatTimestamp_milliseconds [of 1700000000042 "\<lambda>t. ''12:34:56''" "\<lambda>t. 3600"] r
    by blast
  from r c show ?thesis
    by simp
qed

subsection \<open>Durations\<close>

lemma round_half_even_bounds:
  assumes "0 \<le> m"
  shows "0 \<le> round_half_even m" and "of_int (round_half_even m) \<le> 2 * m"
proof -
  let ?f = "\<lfloor>m\<rfloor>"
  have f0: "0 \<le> ?f" using assms by simp
  have fm: "of_int ?f \<le> m" by simp
  show "0 \<le> round_half_even m"
    using f0 by (simp add: round_half_even_def Let_def)
  have "of_int (round_half_even m) \<le> 2 * m" if "m - of_int ?f < 1 / 2"
  proof -
    have "round_half_even m = ?f"
      using that by (simp add: round_half_even_def Let_def)
    with fm assms show ?thesis by linarith
  qed
  moreover have "of_int (round_half_even m) \<le> 2 * m" if h: "\<not> m - of_int ?f < 1 / 2"
  proof -
    have "round_half_even m \<le> ?f + 1"
      by (simp add: round_half_even_def Let_def)
    then have "(of_int (round_half_even m) :: rat) \<le> of_int ?f + 1"
      by (metis of_int_1 of_int_add of_int_le_iff)
    moreover have "of_int ?f + 1 / 2 \<le> m" using h by simp
    moreover have "(0::rat) \<le> of_int ?f" using f0 by simp
    ultimately show ?thesis by linarith
  qed
  ultimately show "of_int (round_half_even m) \<le> 2 * m" by blast
qed

lemma pow2_pos: "0 < pow2 e"
  by (simp add: pow2_def)

lemma round_double_bounds:
  assumes "0 < q"
  shows "0 \<le> round_double q" and "round_double q \<le> 2 * q"
proof -
  define ulp where "ulp = pow2 (max (binary_exponent q) (- 1022) - 52)"
  have u: "0 < ulp" by (simp add: ulp_def pow2_pos)
  have r: "round_double q = of_int (round_half_even (q / ulp)) * ulp"
    using assms by (simp add: round_double_def ulp_def Let_def)
  have m: "0 \<le> q / ulp" using assms u by simp
  show "0 \<le> round_double q"
    unfolding r using round_half_even_bounds(1) [OF m] u by simp
  have "of_int (round_half_even (q / ulp)) * ulp \<le> (2 * (q / ulp)) * ulp"
    using round_half_even_bounds(2) [OF m] u by (simp only: mult_le_cancel_right_pos)
  also have "\<dots> = 2 * q" using u by simp
  finally show "round_double q \<le> 2 * q" unfolding r .
qed

lemma digit_char_0: "digit_char 0 = CHR ''0''"
  by code_simp

lemma decimal_digits_0: "decimal_digits 0 = ''0''"
  by (simp add: decimal_digits.simps [of 0] digit_char_0)

lemma decimal_digits_nonempty: "decimal_digits n \<noteq> []"
  by (subst decimal_digits.simps) simp

lemma toFixed_two_decimal_places:
  assumes "0 \<le> x" "x < 10 ^ 21"
  shows "toFixed x 2 = two_decimal_places x"
proof -
  define h where "h = \<lfloor>x * 100 + 1 / 2\<rfloor>"
  have h0: "0 \<le> h" using assms(1) by (simp add: h_def)
  have t: "toFixed x 2 =
      (let m = (if length (decimal_digits h) \<le> 2
                then replicate (3 - length (decimal_digits h)) CHR ''0'' @ decimal_digits h
                else decimal_digits h)
       in take (length m - 2) m @ ''.'' @ drop (length m - 2) m)"
    using assms by (simp add: toFixed_def toFixed_magnitude_def h_def Let_def)
  have s: "two_decimal_places x =
      decimal_digits (h div 100) @ ''.'' @
         [digit_char (nat (h div 10 mod 10)), digit_char (nat (h mod 10))]"
    by (simp add: two_decimal_places_def h_def Let_def)
  consider "h < 10" | "10 \<le> h" "h < 100" | "100 \<le> h" by linarith
  then show ?thesis
  proof cases
    case 1
    then have "decimal_digits h = [digit_char (nat h)]" "decimal_digits (h div 100) = ''0''"
      "h div 10 mod 10 = 0" "h mod 10 = h"
      using h0 by (simp_all add: decimal_digits.simps [of h] decimal_digits_0)
    then show ?thesis unfolding t s by (simp add: digit_char_0 numeral_3_eq_3)
  next
    case 2
    then have d: "h div 10 < 10" "h div 100 = 0" "h div 10 mod 10 = h div 10" by simp_all
    have "decimal_digits h = [digit_char (nat (h div 10)), digit_char (nat (h mod 10))]"
      using 2 d by (simp add: decimal_digits.simps [of h] decimal_digits.simps [of "h div 10"])
    moreover have "decimal_digits (h div 100) = ''0''"
      using d by (simp add: decimal_digits_0)
    ultimately show ?thesis unfolding t s using d by simp
  next
    case 3
    then have d: "\<not> h < 10" "\<not> h div 10 < 10" by simp_all
    have "h div 10 div 10 = h div 100"
      by (simp add: div_mult2_eq [symmetric])
    then have "decimal_digits h =
        decimal_digits (h div 100) @ [digit_char (nat (h div 10 mod 10)), digit_char (nat (h mod 10))]"
      using d by (simp add: decimal_digits.simps [of h] decimal_digits.simps [of "h div 10"])
    then show ?thesis unfolding t s by (simp add: decimal_digits_nonempty)
  qed
qed

lemma Number_multiply_minute: "Number_multiply 1000000000 60 = 60000000000"
  by code_simp

lemma Number_divide_bounds:
  assumes "0 < a" "0 < b"
  shows "0 \<le> Number_divide a b" and "Number_divide a b \<le> 2 * (a / b)"
  using round_double_bounds [of "a / b"] assms by (simp_all add: Number_divide_def)

lemma toFixed_quotient:
  assumes "0 < n" "n < 10 ^ 12" "1000 \<le> b"
  shows "toFixed (Number_divide (of_nat n) b) 2 = two_decimal_places (Number_divide (of_nat n) b)"
proof (rule toFixed_two_decimal_places)
  have b: "0 < b" using assms(3) by simp
  have n: "(0::rat) < of_nat n" using assms(1) by simp
  show "0 \<le> Number_divide (of_nat n) b"
    using Number_divide_bounds(1) [OF n b] .
  have le: "of_nat n / b \<le> of_nat n / 1000"
    using assms(3) n by (intro divide_left_mono) auto
  have "(of_nat n :: rat) < 10 ^ 12"
    using assms(2) by (metis of_nat_less_iff of_nat_numeral of_nat_power)
  then have "of_nat n / 1000 < (1000000000 :: rat)"
    by simp
  with le have "2 * (of_nat n / b) < 1000000000000000000000"
    by linarith
  with Number_divide_bounds(2) [OF n b] have "Number_divide (of_nat n) b < 1000000000000000000000"
    by linarith
  then show "Number_divide (of_nat n) b < 10 ^ 21"
    by simp
qed

lemma minutes_quotient_below:
  assumes "0 < n" "n < 3 * 10 ^ 31"
  shows "Number_divide (of_nat n) (60 * 10 ^ 9) < 10 ^ 21"
proof -
  have n: "(0::rat) < of_nat n" using assms(1) by simp
  have "(of_nat n :: rat) < of_nat (3 * 10 ^ 31)"
    using assms(2) by (simp only: of_nat_less_iff)
  then have "(of_nat n :: rat) < 30000000000000000000000000000000"
    by simp
  then have "2 * (of_nat n / 60000000000) < (1000000000000000000000 :: rat)"
    by simp
  moreover have "Number_divide (of_nat n) 60000000000 \<le> 2 * (of_nat n / 60000000000)"
    using Number_divide_bounds(2) [OF n, of 60000000000] by simp
  ultimately have "Number_divide (of_nat n) 60000000000 < 1000000000000000000000"
    by linarith
  then show ?thesis by simp
qed

lemma formatDuration_exponent_digits:
  "formatDuration 81129638414606681695789005144064 = ''1.3521606402434447e+21 minutes''"
proof -
  have "toFixed (Number_divide 81129638414606681695789005144064 (Number_multiply 1000000000 60)) 2 =
      ''1.3521606402434447e+21''"
    by code_simp
  then show ?thesis
    by (simp add: formatDuration_def)
qed

text \<open>
  C2. For every number \<open>n\<close> of nanoseconds, \<open>formatDuration\<close> renders \<open>n\<close> itself as
  nanoseconds below 1000, \<open>n / 1000\<close> as microseconds from 1000 and below \<open>10^6\<close>,
  \<open>n / 10^6\<close> as milliseconds from \<open>10^6\<close> and below \<open>10^9\<close>, \<open>n / 10^9\<close> as seconds from
  \<open>10^9\<close> and below \<open>10^12\<close>, and \<open>n / (60 * 10^9)\<close> as minutes from \<open>10^12\<close> on; every
  quotient is fixed to two decimal places, in the minutes branch as long as the quotient
  is below \<open>10^21\<close>. From there on the quotient is printed in exponent notation: at
  \<open>n = 59999999999999997815377769791488\<close> the output is \<open>1e+21 minutes\<close>.
\<close>

theorem formatDuration_ranges:
  "(n < 1000 \<longrightarrow> formatDuration n = Number_toString n @ '' nanoseconds'') \<and>
   (1000 \<le> n \<and> n < 10 ^ 6 \<longrightarrow>
      formatDuration n = two_decimal_places (Number_divide (of_nat n) 1000) @ '' microseconds'') \<and>
   (10 ^ 6 \<le> n \<and> n < 10 ^ 9 \<longrightarrow>
      formatDuration n = two_decimal_places (Number_divide (of_nat n) (10 ^ 6)) @ '' milliseconds'') \<and>
   (10 ^ 9 \<le> n \<and> n < 10 ^ 12 \<longrightarrow>
      formatDuration n = two_decimal_places (Number_divide (of_nat n) (10 ^ 9)) @ '' seconds'') \<and>
   (10 ^ 12 \<le> n \<and> Number_divide (of_nat n) (60 * 10 ^ 9) < 10 ^ 21 \<longrightarrow>
      formatDuration n =
        two_decimal_places (Number_divide (of_nat n) (60 * 10 ^ 9)) @ '' minutes'')"
proof -
  have micro: "formatDuration n = two_decimal_places (Number_divide (of_nat n) 1000) @ '' microseconds''"
    if "1000 \<le> n \<and> n < 10 ^ 6"
    using that toFixed_quotient [of n 1000] by (simp add: formatDuration_def)
  have milli: "formatDuration n = two_decimal_places (Number_divide (of_nat n) (10 ^ 6)) @ '' milliseconds''"
    if "10 ^ 6 \<le> n \<and> n < 10 ^ 9"
    using that toFixed_quotient [of n "10 ^ 6"] by (simp add: formatDuration_def)
  have sec: "formatDuration n = two_decimal_places (Number_divide (of_nat n) (10 ^ 9)) @ '' seconds''"
    if "10 ^ 9 \<le> n \<and> n < 10 ^ 12"
    using that toFixed_quotient [of n "10 ^ 9"] by (simp add: formatDuration_def)
  have minute: "formatDuration n =
        two_decimal_places (Number_divide (of_nat n) (60 * 10 ^ 9)) @ '' minutes''"
    if h: "10 ^ 12 \<le> n \<and> Number_divide (of_nat n) (60 * 10 ^ 9) < 10 ^ 21"
  proof -
    have n: "(0::rat) < of_nat n" using h by auto
    have "0 \<le> Number_divide (of_nat n) (60 * 10 ^ 9)"
      using Number_divide_bounds(1) [OF n, of "60 * 10 ^ 9"] by simp
    with h have "toFixed (Number_divide (of_nat n) (60 * 10 ^ 9)) 2 =
        two_decimal_places (Number_divide (of_nat n) (60 * 10 ^ 9))"
      by (intro toFixed_two_decimal_places) simp_all
    with h show ?thesis
      by (simp add: formatDuration_def Number_multiply_minute)
  qed
  have nano: "formatDuration n = Number_toString n @ '' nanoseconds''" if "n < 1000"
    using that by (simp add: formatDuration_def)
  from nano micro milli sec minute show ?thesis
    by blast
qed

theorem formatDuration_ranges_witness:
  "formatDuration 999 = ''999 nanoseconds'' \<and>
   formatDuration 1005 = ''1.00 microseconds'' \<and>
   formatDuration 1500000 = ''1.50 milliseconds'' \<and>
   formatDuration 999999999999 = ''1000.00 seconds'' \<and>
   Number_divide (of_nat 1000000000000) (60 * 10 ^ 9) < 10 ^ 21 \<and>
   formatDuration 1000000000000 = ''16.67 minutes''"
proof -
  have d: "Number_toString 999 = ''999''"
    by code_simp
  have e: "two_decimal_places (Number_divide 1005 1000) = ''1.00''"
    "two_decimal_places (Number_divide 1500000 (10 ^ 6)) = ''1.50''"
    "two_decimal_places (Number_divide 999999999999 (10 ^ 9)) = ''1000.00''"
    "two_decimal_places (Number_divide 1000000000000 (60 * 10 ^ 9)) = ''16.67''"
    by code_simp+
  have b: "Number_divide 1000000000000 (60 * 10 ^ 9) < 10 ^ 21"
    by code_simp
  show ?thesis
    using formatDuration_ranges [of 999] formatDuration_ranges [of 1005]
      formatDuration_ranges [of 1500000] formatDuration_ranges [of 999999999999]
      formatDuration_ranges [of 1000000000000] d e b
    by simp
qed

theorem formatDuration_exponent_counterexample:
  "(10 :: nat) ^ 12 \<le> 59999999999999997815377769791488 \<and>
   formatDuration 59999999999999997815377769791488 = ''1e+21 minutes'' \<and>
   two_decimal_places (Number_divide 59999999999999997815377769791488 (60 * 10 ^ 9)) @ '' minutes'' =
     ''1000000000000000000000.00 minutes'' \<and>
   formatDuration 59999999999999997815377769791488 \<noteq>
     two_decimal_places (Number_divide 59999999999999997815377769791488 (60 * 10 ^ 9)) @ '' minutes''"
proof -
  have e: "toFixed (Number_divide 59999999999999997815377769791488 (Number_multiply 1000000000 60)) 2 =
      ''1e+21''"
    by code_simp
  have f: "formatDuration 59999999999999997815377769791488 = ''1e+21 minutes''"
    by (simp add: formatDuration_def e)
  have t: "two_decimal_places (Number_divide 59999999999999997815377769791488 (60 * 10 ^ 9)) =
      ''1000000000000000000000.00''"
    by code_simp
  show ?thesis
    unfolding f t by simp
qed

end
